theory Spec2Isabelle
  imports Complex_Main "HOL-Library.Sublist"
begin

section \<open>Image generation engines of SirChatalot (chatutils/image\_engines.py)\<close>

text \<open>
  The module holds two engines, \<open>DalleEngine\<close> and \<open>StabilityEngine\<close>. Each has a
  sliding-window rate limiter keyed by the caller identity, a parser of directives
  embedded in the prompt, and a mapping of provider replies to a pair
  (image, message). The engines are modelled with explicit state passing: the
  engine object is a record, the clock reading and the provider's reply are
  arguments, every raise of the Python code is a value of \<open>py_error\<close>.
\<close>

subsection \<open>Python values\<close>

text \<open>
  A Python \<open>str\<close> is a sequence of Unicode code points. The code replaces the em dash
  (U+2014) and trims Unicode white space, so a string is a list of code points
  rather than of bytes. \<open>lit\<close> turns an ASCII literal into such a string.
\<close>

type_synonym pystr = "nat list"

definition lit :: "string \<Rightarrow> pystr" where
  "lit s = map of_char s"

definition em_dash :: nat where
  "em_dash = 8212"

text \<open>
  \<open>s.replace(old, new)\<close>: the occurrences of \<open>old\<close> are found from the left and do not
  overlap; the text behind a replaced occurrence is scanned on, the result is not
  scanned again. \<open>replace_ne\<close> is the case of a non-empty \<open>old\<close>.
\<close>

fun replace_ne :: "pystr \<Rightarrow> pystr \<Rightarrow> pystr \<Rightarrow> pystr" where
  "replace_ne old new [] = []"
| "replace_ne old new (c # cs) =
     (if prefix old (c # cs) then new @ replace_ne old new (drop (length old - 1) cs)
      else c # replace_ne old new cs)"

definition py_replace :: "pystr \<Rightarrow> pystr \<Rightarrow> pystr \<Rightarrow> pystr" where
  "py_replace old new s =
     (if old = [] then new @ concat (map (\<lambda>c. c # new) s) else replace_ne old new s)"

text \<open>\<open>sub in s\<close>: \<open>sub\<close> occurs in \<open>s\<close> as a contiguous piece.\<close>

definition py_in :: "pystr \<Rightarrow> pystr \<Rightarrow> bool" where
  "py_in sub s = sublist sub s"

text \<open>
  The white space of \<open>str.strip()\<close> and \<open>str.split()\<close>: U+0009 to U+000D, U+001C to
  U+0020, U+0085, U+00A0, U+1680, U+2000 to U+200A, U+2028, U+2029, U+202F, U+205F, U+3000.
\<close>

definition py_isspace :: "nat \<Rightarrow> bool" where
  "py_isspace c \<longleftrightarrow>
     (9 \<le> c \<and> c \<le> 13) \<or> (28 \<le> c \<and> c \<le> 32) \<or> c = 133 \<or> c = 160 \<or> c = 5760 \<or>
     (8192 \<le> c \<and> c \<le> 8202) \<or> c = 8232 \<or> c = 8233 \<or> c = 8239 \<or> c = 8287 \<or> c = 12288"

definition py_strip :: "pystr \<Rightarrow> pystr" where
  "py_strip s = rev (dropWhile py_isspace (rev (dropWhile py_isspace s)))"

text \<open>\<open>s.split(sep)\<close> for a non-empty \<open>sep\<close>: the pieces between the occurrences of \<open>sep\<close>.\<close>

fun py_split :: "pystr \<Rightarrow> pystr \<Rightarrow> pystr list" where
  "py_split sep [] = [[]]"
| "py_split sep (c # cs) =
     (if prefix sep (c # cs) then [] # py_split sep (drop (length sep - 1) cs)
      else (case py_split sep cs of [] \<Rightarrow> [[c]] | p # ps \<Rightarrow> (c # p) # ps))"

text \<open>\<open>s.split()\<close>: the words of \<open>s\<close>, separated by runs of white space.\<close>

function py_split_ws :: "pystr \<Rightarrow> pystr list" where
  "py_split_ws s =
     (case dropWhile py_isspace s of
        [] \<Rightarrow> []
      | c # cs \<Rightarrow> takeWhile (\<lambda>x. \<not> py_isspace x) (c # cs) #
                 py_split_ws (dropWhile (\<lambda>x. \<not> py_isspace x) cs))"
  by pat_completeness auto
termination
proof (relation "measure length")
  show "wf (measure length)" by simp
next
  fix s :: pystr and c cs
  assume a: "dropWhile py_isspace s = c # cs"
  have "length (dropWhile (\<lambda>x. \<not> py_isspace x) cs) \<le> length cs"
    by (rule length_dropWhile_le)
  moreover have "length (c # cs) \<le> length s"
    using length_dropWhile_le[of py_isspace s] a by simp
  ultimately show "(dropWhile (\<lambda>x. \<not> py_isspace x) cs, s) \<in> measure length"
    by simp
qed

text \<open>\<open>str(n)\<close> of an integer, and \<open>str(x)\<close> of a value that may be \<open>None\<close>.\<close>

fun str_nat :: "nat \<Rightarrow> pystr" where
  "str_nat n = (if n < 10 then [48 + n] else str_nat (n div 10) @ [48 + n mod 10])"

definition str_int :: "int \<Rightarrow> pystr" where
  "str_int i = (if i < 0 then 45 # str_nat (nat (- i)) else str_nat (nat i))"

definition str_opt :: "pystr option \<Rightarrow> pystr" where
  "str_opt x = (case x of None \<Rightarrow> lit ''None'' | Some v \<Rightarrow> v)"

text \<open>The caller identity: a chat or user id (an integer) or a string such as \<open>'function'\<close>.\<close>

datatype pyid = IdInt int | IdStr pystr

text \<open>
  The exceptions that the modelled code can meet. The last five are raised by the
  OpenAI client: \<open>BadRequestError\<close> (HTTP 400), \<open>PermissionDeniedError\<close> (403),
  \<open>RateLimitError\<close> (429), \<open>InternalServerError\<close> (5xx); \<open>APIConnectionError\<close>
  stands for a failure of the transport. Each carries the text of \<open>str(e)\<close>.
\<close>

datatype py_error =
    AttributeError
  | TypeError
  | KeyError
  | IndexError
  | ValueError
  | BadRequestError pystr
  | PermissionDeniedError pystr
  | RateLimitError pystr
  | InternalServerError pystr
  | APIConnectionError pystr

text \<open>\<open>xs[n]\<close> for \<open>0 \<le> n\<close>: an index out of range raises \<open>IndexError\<close>.\<close>

definition py_index :: "'a list \<Rightarrow> nat \<Rightarrow> py_error + 'a" where
  "py_index xs n = (if n < length xs then Inr (xs ! n) else Inl IndexError)"

text \<open>
  \<open>int(s)\<close>: white space around is dropped, then an optional sign and decimal digits,
  where single underscores may stand between digits; anything else raises
  \<open>ValueError\<close>. Only the ASCII digits are digits here (Python takes the decimal
  digits of other scripts too).
\<close>

definition py_isdigit :: "nat \<Rightarrow> bool" where
  "py_isdigit c \<longleftrightarrow> 48 \<le> c \<and> c \<le> 57"

fun digits_ok :: "pystr \<Rightarrow> bool" where
  "digits_ok [] = False"
| "digits_ok [c] = py_isdigit c"
| "digits_ok (c # d # cs) =
     (py_isdigit c \<and> (if d = 95 then cs \<noteq> [] \<and> digits_ok cs else digits_ok (d # cs)))"

definition digits_value :: "pystr \<Rightarrow> int" where
  "digits_value ds = foldl (\<lambda>a c. 10 * a + int (c - 48)) 0 (filter py_isdigit ds)"

definition py_int :: "pystr \<Rightarrow> py_error + int" where
  "py_int s =
     (let t = py_strip s;
          neg = (case t of [] \<Rightarrow> False | c # cs \<Rightarrow> c = 45);
          ds = (case t of [] \<Rightarrow> [] | c # cs \<Rightarrow> if c = 45 \<or> c = 43 then cs else t)
      in if digits_ok ds then Inr (if neg then - digits_value ds else digits_value ds)
         else Inl ValueError)"

text \<open>\<open>str(id)\<close> of a caller identity.\<close>

definition str_id :: "pyid \<Rightarrow> pystr" where
  "str_id i = (case i of IdInt n \<Rightarrow> str_int n | IdStr t \<Rightarrow> t)"

subsection \<open>The rate limiter\<close>

text \<open>
  \<open>self.image_rate_limit\<close>: a dict from identity to the list of the times
  (\<open>time.time()\<close>, seconds) of the recent calls. A time is the real number that the
  float denotes, and \<open>current_time - t\<close> is the exact difference. Python rounds the
  difference to the nearest double before it compares it with the window, so
  for an entry whose age is within one rounding step of the window the code may
  decide the other way than this model does. The statements below that speak of
  kept and dropped entries are about the exact difference.
\<close>

type_synonym rate_table = "pyid \<rightharpoonup> real list"

text \<open>
  The body of the \<open>try\<close> block of \<open>image_rate_limit_check\<close>, the same text in both
  classes. \<open>N\<close> is \<open>settings["ImageRateLimitCount"]\<close>, \<open>W\<close> is
  \<open>settings["ImageRateLimitTime"]\<close>. The attribute \<open>image_rate_limit\<close> exists only when
  the constructor created it (\<open>None\<close> here when it did not): reading it then raises
  \<open>AttributeError\<close>.
\<close>

definition rate_limit_body ::
  "int \<Rightarrow> int \<Rightarrow> rate_table option \<Rightarrow> pyid \<Rightarrow> real \<Rightarrow> py_error + (rate_table option \<times> bool)" where
  "rate_limit_body N W tbl i current_time =
     (if N \<le> 0 \<or> W \<le> 0 then Inr (tbl, True)
      else case tbl of
        None \<Rightarrow> Inl AttributeError
      | Some m \<Rightarrow>
          let m1 = (if i \<notin> dom m then m(i \<mapsto> []) else m);
              h1 = (case m1 i of None \<Rightarrow> [] | Some h \<Rightarrow> h) @ [current_time];
              h2 = filter (\<lambda>t. current_time - t < real_of_int W) h1;
              m2 = m1(i \<mapsto> h2)
          in if int (length h2) > N then Inr (Some m2, False) else Inr (Some m2, True))"

text \<open>The \<open>except Exception\<close> of the check: the limiter fails open, the table is as it was.\<close>

definition rate_limit_check ::
  "int \<Rightarrow> int \<Rightarrow> rate_table option \<Rightarrow> pyid \<Rightarrow> real \<Rightarrow> rate_table option \<times> bool" where
  "rate_limit_check N W tbl i current_time =
     (case rate_limit_body N W tbl i current_time of
        Inl e \<Rightarrow> (tbl, True)
      | Inr r \<Rightarrow> r)"

subsection \<open>DalleEngine: settings and state\<close>

record dalle_settings =
  d_ImageGenModel :: pystr
  d_ImageGenerationSize :: pystr
  d_ImageGenerationStyle :: pystr
  d_ImageGenerationQuality :: pystr
  d_ImageRateLimitCount :: int
  d_ImageRateLimitTime :: int

record dalle_engine =
  d_settings :: dalle_settings
  d_end_user_id :: bool
  d_image_rate_limit :: "rate_table option"

text \<open>
  \<open>DalleEngine.__init__\<close>, after the settings are loaded: the table exists only when
  the limiter is enabled.
\<close>

definition dalle_init :: "dalle_settings \<Rightarrow> bool \<Rightarrow> dalle_engine" where
  "dalle_init s flag =
     \<lparr> d_settings = s, d_end_user_id = flag,
       d_image_rate_limit =
         (if d_ImageRateLimitCount s > 0 \<and> d_ImageRateLimitTime s > 0
          then Some Map.empty else None) \<rparr>"

definition dalle_image_rate_limit_check ::
  "dalle_engine \<Rightarrow> pyid \<Rightarrow> real \<Rightarrow> dalle_engine \<times> bool" where
  "dalle_image_rate_limit_check eng i current_time =
     (case rate_limit_check (d_ImageRateLimitCount (d_settings eng))
             (d_ImageRateLimitTime (d_settings eng)) (d_image_rate_limit eng) i current_time of
        (tbl, ok) \<Rightarrow> (eng\<lparr>d_image_rate_limit := tbl\<rparr>, ok))"

subsection \<open>DalleEngine.imagine and generate\_image\<close>

text \<open>
  The keyword arguments of \<open>client.images.generate\<close>, the first entry of
  \<open>response.data\<close> (reading \<open>revised_prompt\<close> may raise, the code guards it), and what
  the method takes from outside: the SHA-1 hex digest of \<open>hashlib\<close>, the provider behind
  the client (an exception or the list \<open>response.data\<close>) and the clock.
\<close>

record dalle_request =
  rq_model :: pystr
  rq_prompt :: pystr
  rq_size :: pystr
  rq_quality :: pystr
  rq_n :: int
  rq_response_format :: pystr
  rq_style :: pystr
  rq_user :: pystr

record dalle_image =
  b64_json :: "pystr option"
  revised_prompt :: "py_error + pystr option"

record dalle_env =
  d_sha1_hexdigest :: "pystr \<Rightarrow> pystr"
  d_images_generate :: "dalle_request \<Rightarrow> py_error + dalle_image list"
  d_time :: real

text \<open>
  The second component of the result of \<open>imagine\<close> is a text (a message for the user
  or the revised prompt), and \<open>Throttled N W\<close> stands for the one text that is
  formatted from numbers: \<open>Image generation is rate limited (only N images per
  round(W/60) minutes are allowed). Please try again later.\<close>
\<close>

datatype message = Text pystr | Throttled int int

text \<open>The result of \<open>imagine\<close>: the pair (image, message), each possibly \<open>None\<close>.\<close>

type_synonym image_result = "pystr option \<times> message option"

definition msg_no_prompt :: pystr where
  "msg_no_prompt = lit ''No text prompt was given. Please try again.''"

definition msg_policy :: pystr where
  "msg_policy =
     lit ''Your request was rejected because it may violate content policy. Please review it and try again.''"

definition msg_rejected :: pystr where
  "msg_rejected = lit ''Your request was rejected. Please review it and try again.''"

definition msg_service_limited :: pystr where
  "msg_service_limited = lit ''Service is getting rate limited. Please try again later.''"

text \<open>
  Lines 122 to 144 of \<open>imagine\<close>. The state of the parser is (prompt, size, style,
  quality). Each \<open>if\<close> block of the source looks for one keyword, sets one parameter
  and removes the keyword from the prompt; the blocks for \<open>--horizontal\<close> and
  \<open>--vertical\<close> set the size only for the model \<open>dall-e-3\<close>.
\<close>

type_synonym dalle_params = "pystr \<times> pystr \<times> pystr \<times> pystr"

definition keyword_style :: "pystr \<Rightarrow> pystr \<Rightarrow> dalle_params \<Rightarrow> dalle_params" where
  "keyword_style tok v st =
     (case st of (prompt, sz, style, quality) \<Rightarrow>
        if py_in tok prompt then (py_replace tok [] prompt, sz, v, quality) else st)"

definition keyword_quality :: "pystr \<Rightarrow> pystr \<Rightarrow> dalle_params \<Rightarrow> dalle_params" where
  "keyword_quality tok v st =
     (case st of (prompt, sz, style, quality) \<Rightarrow>
        if py_in tok prompt then (py_replace tok [] prompt, sz, style, v) else st)"

definition keyword_size :: "dalle_settings \<Rightarrow> pystr \<Rightarrow> pystr \<Rightarrow> dalle_params \<Rightarrow> dalle_params" where
  "keyword_size settings tok v st =
     (case st of (prompt, sz, style, quality) \<Rightarrow>
        if py_in tok prompt
        then (py_replace tok [] prompt,
              (if d_ImageGenModel settings = lit ''dall-e-3'' then v else sz), style, quality)
        else st)"

text \<open>
  The em dash becomes \<open>--\<close>, then the six blocks run in the order of the source, then
  the prompt is trimmed (\<open>sz\<close> is the argument \<open>size\<close>).
\<close>

definition dalle_directives ::
  "dalle_settings \<Rightarrow> pystr \<Rightarrow> pystr \<Rightarrow> pystr \<Rightarrow> pystr \<Rightarrow> dalle_params" where
  "dalle_directives settings prompt sz style quality =
     (case keyword_size settings (lit ''--vertical'') (lit ''1024x1792'')
            (keyword_size settings (lit ''--horizontal'') (lit ''1792x1024'')
              (keyword_quality (lit ''--hd'') (lit ''hd'')
                (keyword_quality (lit ''--sd'') (lit ''standard'')
                  (keyword_style (lit ''--vivid'') (lit ''vivid'')
                    (keyword_style (lit ''--natural'') (lit ''natural'')
                      (py_replace [em_dash] (lit ''--'') prompt, sz, style, quality)))))) of
        (prompt1, size1, style1, quality1) \<Rightarrow> (py_strip prompt1, size1, style1, quality1))"

text \<open>
  The \<open>try\<close> block of \<open>imagine\<close>: the requests sent to the provider, and the value
  returned or the exception raised. A prompt that is \<open>None\<close> has no \<open>replace\<close>.
\<close>

definition dalle_imagine_try ::
  "dalle_env \<Rightarrow> dalle_engine \<Rightarrow> pystr option \<Rightarrow> pyid \<Rightarrow> pystr \<Rightarrow> pystr \<Rightarrow> int \<Rightarrow> pystr \<Rightarrow> bool \<Rightarrow>
     dalle_request list \<times> (py_error + image_result)" where
  "dalle_imagine_try env eng prompt i sz style n quality revision =
     (case prompt of
        None \<Rightarrow> ([], Inl AttributeError)
      | Some p \<Rightarrow>
          (case dalle_directives (d_settings eng) p sz style quality of
             (prompt1, size1, style1, quality1) \<Rightarrow>
               if prompt1 = [] then ([], Inr (None, Some (Text msg_no_prompt)))
               else
                 let user_id = (if d_end_user_id eng then Some (d_sha1_hexdigest env (str_id i))
                                else None);
                     request = \<lparr> rq_model = d_ImageGenModel (d_settings eng), rq_prompt = prompt1,
                                 rq_size = size1, rq_quality = quality1, rq_n = n,
                                 rq_response_format = lit ''b64_json'', rq_style = style1,
                                 rq_user = str_opt user_id \<rparr>
                 in (case d_images_generate env request of
                      Inl e \<Rightarrow> ([request], Inl e)
                    | Inr data \<Rightarrow>
                        (case py_index data 0 of
                           Inl e \<Rightarrow> ([request], Inl e)
                         | Inr img \<Rightarrow>
                             let b64_image = (case b64_json img of
                                                None \<Rightarrow> None
                                              | Some b \<Rightarrow> if b \<noteq> [] then Some b else None);
                                 revised = (if revision
                                            then (case revised_prompt img of
                                                    Inl e \<Rightarrow> None | Inr r \<Rightarrow> map_option Text r)
                                            else None)
                             in ([request], Inr (b64_image, revised))))))"

text \<open>
  \<open>imagine\<close>: the rate-limit check first, then the \<open>try\<close> block with its three
  handlers. The result is the engine after the call, the requests sent and the pair
  returned.
\<close>

definition dalle_imagine ::
  "dalle_env \<Rightarrow> dalle_engine \<Rightarrow> pystr option \<Rightarrow> pyid \<Rightarrow> pystr \<Rightarrow> pystr \<Rightarrow> int \<Rightarrow> pystr \<Rightarrow> bool \<Rightarrow>
     dalle_engine \<times> dalle_request list \<times> image_result" where
  "dalle_imagine env eng prompt i sz style n quality revision =
     (case dalle_image_rate_limit_check eng i (d_time env) of
        (eng1, ok) \<Rightarrow>
          if ok = False
          then (eng1, [], (None, Some (Throttled (d_ImageRateLimitCount (d_settings eng))
                                                    (d_ImageRateLimitTime (d_settings eng)))))
          else
            (case dalle_imagine_try env eng1 prompt i sz style n quality revision of
               (sent, Inr r) \<Rightarrow> (eng1, sent, r)
             | (sent, Inl (BadRequestError e)) \<Rightarrow>
                 if py_in (lit ''content_policy_violation'') e
                 then (eng1, sent, (None, Some (Text msg_policy)))
                 else (eng1, sent, (None, Some (Text msg_rejected)))
             | (sent, Inl (RateLimitError e)) \<Rightarrow> (eng1, sent, (None, Some (Text msg_service_limited)))
             | (sent, Inl _) \<Rightarrow> (eng1, sent, (None, None))))"

text \<open>
  \<open>generate_image\<close>. It returns a pair, or the bare \<open>None\<close> from its handler (the outer
  \<open>None\<close> here). No statement of its \<open>try\<close> block raises: \<open>imagine\<close> returns a pair on
  every path, so the handler is never entered.
\<close>

definition dalle_generate_image ::
  "dalle_env \<Rightarrow> dalle_engine \<Rightarrow> pystr option \<Rightarrow> pystr option \<Rightarrow> pystr option \<Rightarrow>
     dalle_engine \<times> dalle_request list \<times> image_result option" where
  "dalle_generate_image env eng prompt image_orientation image_style =
     (case prompt of
        None \<Rightarrow> (eng, [], Some (None, None))
      | Some p \<Rightarrow>
          let size0 = lit ''1024x1024'';
              size1 = (if image_orientation = Some (lit ''landscape'') then lit ''1792x1024'' else size0);
              sz = (if image_orientation = Some (lit ''portrait'') then lit ''1024x1792'' else size1);
              style = (if image_style = Some (lit ''natural'') then lit ''natural'' else lit ''vivid'')
          in case dalle_imagine env eng (Some p) (IdStr (lit ''function'')) sz style 1
                    (lit ''standard'') True of
               (eng1, sent, (b64_image, revised)) \<Rightarrow> (eng1, sent, Some (b64_image, revised)))"

subsection \<open>StabilityEngine: settings and state\<close>

text \<open>
  \<open>settings["ImageGenerationSize"]\<close> is a string and \<open>settings["Seed"]\<close> an integer, so
  the tests \<open>is not None\<close> on them always pass; \<open>settings["NegativePrompt"]\<close> is \<open>None\<close>
  when the configuration says \<open>None\<close>.
\<close>

record stability_settings =
  s_ImageGenURL :: pystr
  s_ImageGenerationSize :: pystr
  s_ImageRateLimitCount :: int
  s_ImageRateLimitTime :: int
  s_NegativePrompt :: "pystr option"
  s_Seed :: int

record stability_engine =
  s_settings :: stability_settings
  s_image_rate_limit :: "rate_table option"

definition stability_init :: "stability_settings \<Rightarrow> stability_engine" where
  "stability_init s =
     \<lparr> s_settings = s,
       s_image_rate_limit =
         (if s_ImageRateLimitCount s > 0 \<and> s_ImageRateLimitTime s > 0
          then Some Map.empty else None) \<rparr>"

definition stability_image_rate_limit_check ::
  "stability_engine \<Rightarrow> pyid \<Rightarrow> real \<Rightarrow> stability_engine \<times> bool" where
  "stability_image_rate_limit_check eng i current_time =
     (case rate_limit_check (s_ImageRateLimitCount (s_settings eng))
             (s_ImageRateLimitTime (s_settings eng)) (s_image_rate_limit eng) i current_time of
        (tbl, ok) \<Rightarrow> (eng\<lparr>s_image_rate_limit := tbl\<rparr>, ok))"

subsection \<open>StabilityEngine.imagine and generate\_image\<close>

text \<open>
  The dict \<open>data\<close> of the request has the five keys below (a key that is absent is
  \<open>None\<close>). The reply has a status code and a JSON body, of which the code reads the
  keys \<open>image\<close>, \<open>seed\<close> and \<open>finish_reason\<close> (the latter two as the f-string prints
  them); \<open>response.json()\<close> may raise. \<open>s_post\<close> is \<open>requests.post\<close> on the
  configured URL: an exception or the reply.
\<close>

record stability_data =
  sd_negative_prompt :: "pystr option"
  sd_aspect_ratio :: "pystr option"
  sd_seed :: "int option"
  sd_prompt :: "pystr option"
  sd_output_format :: "pystr option"

record stability_json =
  j_image :: "pystr option"
  j_seed :: "pystr option"
  j_finish_reason :: "pystr option"

record stability_response =
  status_code :: int
  json :: "py_error + stability_json"

record stability_env =
  s_post :: "stability_data \<Rightarrow> py_error + stability_response"
  s_time :: real

definition msg_empty_prompt :: pystr where
  "msg_empty_prompt = lit ''Text prompt is empty. Please try again.''"

definition msg_bad_request :: pystr where
  "msg_bad_request = lit ''Your request was rejected (BadRequest).''"

definition msg_moderation :: pystr where
  "msg_moderation =
     lit ''Your request was flagged by content moderation. Please review it and try again.''"

definition msg_service_down :: pystr where
  "msg_service_down = lit ''Service is down. Please try again later.''"

definition msg_could_not :: pystr where
  "msg_could_not = lit ''Could not generate image. Please try again.''"

definition msg_finish_reason :: "pystr \<Rightarrow> pystr" where
  "msg_finish_reason r = lit ''Could not generate image. Finish Reason: '' @ r"

definition msg_revised :: "pystr \<Rightarrow> pystr \<Rightarrow> pystr \<Rightarrow> pystr" where
  "msg_revised prompt sd r =
     lit ''Prompt: '' @ prompt @ lit ''. Seed: '' @ sd @ lit ''. Finish Reason: '' @ r"

text \<open>
  The argument of a keyword: \<open>x = prompt.split(tok)[1].strip()\<close>, then
  \<open>x = x.split()[0].strip()\<close>, the word behind the first occurrence of the keyword.
\<close>

definition directive_arg :: "pystr \<Rightarrow> pystr \<Rightarrow> py_error + pystr" where
  "directive_arg tok prompt =
     (case py_index (py_split tok prompt) 1 of
        Inl e \<Rightarrow> Inl e
      | Inr t \<Rightarrow>
          (case py_index (py_split_ws (py_strip t)) 0 of
             Inl e \<Rightarrow> Inl e
           | Inr w \<Rightarrow> Inr (py_strip w)))"

text \<open>
  Lines 322 to 338: \<open>data\<close> is seeded with the configured values, then the arguments
  of the call are written over them (\<open>rt\<close> is the argument \<open>ratio\<close>).
\<close>

definition stability_seed_data ::
  "stability_settings \<Rightarrow> pystr \<Rightarrow> pystr option \<Rightarrow> int \<Rightarrow> stability_data" where
  "stability_seed_data settings rt negative_prompt seed =
     (let data0 = \<lparr> sd_negative_prompt = s_NegativePrompt settings,
                     sd_aspect_ratio = Some (s_ImageGenerationSize settings),
                     sd_seed = Some (s_Seed settings),
                     sd_prompt = None, sd_output_format = None \<rparr>;
          data1 = (case negative_prompt of
                     None \<Rightarrow> data0
                   | Some np \<Rightarrow>
                       (case sd_negative_prompt data0 of
                          Some old \<Rightarrow> data0\<lparr>sd_negative_prompt := Some (old @ lit ''; '' @ np)\<rparr>
                        | None \<Rightarrow> data0\<lparr>sd_negative_prompt := Some np\<rparr>));
          data2 = (if seed > 0 then data1\<lparr>sd_seed := Some seed\<rparr> else data1);
          data3 = (if rt \<noteq> lit ''1:1'' then data2\<lparr>sd_aspect_ratio := Some rt\<rparr> else data2)
      in data3)"

text \<open>
  Lines 341 to 346: \<open>--horizontal\<close> and \<open>--vertical\<close> are removed from the prompt. They
  assign the local variable \<open>ratio\<close>, which is not read again: \<open>data\<close> was filled
  before.
\<close>

definition stability_orientation :: "pystr \<Rightarrow> pystr" where
  "stability_orientation p =
     (let p1 = (if py_in (lit ''--horizontal'') p then py_replace (lit ''--horizontal'') [] p else p);
          p2 = (if py_in (lit ''--vertical'') p1 then py_replace (lit ''--vertical'') [] p1 else p1)
      in p2)"

text \<open>Lines 347 to 351, 352 to 356 and 357 to 361: the keywords with an argument.\<close>

definition stability_ratio :: "pystr \<times> stability_data \<Rightarrow> py_error + (pystr \<times> stability_data)" where
  "stability_ratio pd =
     (case pd of (p, data) \<Rightarrow>
        if py_in (lit ''--ratio'') p
        then (case directive_arg (lit ''--ratio'') p of
                Inl e \<Rightarrow> Inl e
              | Inr ratio \<Rightarrow>
                  Inr (py_replace (lit ''--ratio '' @ ratio) [] p, data\<lparr>sd_aspect_ratio := Some ratio\<rparr>))
        else Inr (p, data))"

definition stability_negative :: "pystr \<times> stability_data \<Rightarrow> py_error + (pystr \<times> stability_data)" where
  "stability_negative pd =
     (case pd of (p, data) \<Rightarrow>
        if py_in (lit ''--negative'') p
        then (case directive_arg (lit ''--negative'') p of
                Inl e \<Rightarrow> Inl e
              | Inr neg \<Rightarrow>
                  (case sd_negative_prompt data of
                     None \<Rightarrow> Inl KeyError
                   | Some old \<Rightarrow>
                       Inr (py_replace (lit ''--negative '' @ neg) [] p,
                            data\<lparr>sd_negative_prompt := Some (old @ lit ''; '' @ neg)\<rparr>)))
        else Inr (p, data))"

definition stability_seed :: "pystr \<times> stability_data \<Rightarrow> py_error + (pystr \<times> stability_data)" where
  "stability_seed pd =
     (case pd of (p, data) \<Rightarrow>
        if py_in (lit ''--seed'') p
        then (case directive_arg (lit ''--seed'') p of
                Inl e \<Rightarrow> Inl e
              | Inr sd \<Rightarrow>
                  (case py_int sd of
                     Inl e \<Rightarrow> Inl e
                   | Inr v \<Rightarrow> Inr (py_replace (lit ''--seed '' @ sd) [] p, data\<lparr>sd_seed := Some v\<rparr>)))
        else Inr (p, data))"

text \<open>
  Lines 320 to 364: the prompt and the request built from a prompt that is neither
  \<open>None\<close> nor empty.
\<close>

definition stability_build ::
  "stability_settings \<Rightarrow> pystr \<Rightarrow> pystr \<Rightarrow> pystr option \<Rightarrow> int \<Rightarrow> pystr \<Rightarrow>
     py_error + (pystr \<times> stability_data)" where
  "stability_build settings prompt rt negative_prompt seed output_format =
     (let p0 = py_replace (lit ''  '') (lit '' '') (py_replace [em_dash] (lit ''--'') prompt);
          data = stability_seed_data settings rt negative_prompt seed
      in case stability_ratio (stability_orientation p0, data) of
           Inl e \<Rightarrow> Inl e
         | Inr pd1 \<Rightarrow>
             (case stability_negative pd1 of
                Inl e \<Rightarrow> Inl e
              | Inr pd2 \<Rightarrow>
                  (case stability_seed pd2 of
                     Inl e \<Rightarrow> Inl e
                   | Inr (p, data3) \<Rightarrow>
                       Inr (p, data3\<lparr>sd_prompt := Some p, sd_output_format := Some output_format\<rparr>))))"

text \<open>Lines 375 to 397: the reply of the provider, read into the pair returned.\<close>

definition stability_reply :: "pystr \<Rightarrow> bool \<Rightarrow> stability_response \<Rightarrow> py_error + image_result" where
  "stability_reply prompt revision response =
     (if status_code response = 200
      then (case json response of
              Inl e \<Rightarrow> Inl e
            | Inr response_data \<Rightarrow>
                (case j_image response_data of
                   Some img \<Rightarrow>
                     if revision
                     then (case j_seed response_data of
                             None \<Rightarrow> Inl KeyError
                           | Some sd \<Rightarrow>
                               (case j_finish_reason response_data of
                                  None \<Rightarrow> Inl KeyError
                                | Some r \<Rightarrow> Inr (Some img, Some (Text (msg_revised prompt sd r)))))
                     else Inr (Some img, None)
                 | None \<Rightarrow>
                     (case j_finish_reason response_data of
                        Some r \<Rightarrow> Inr (None, Some (Text (msg_finish_reason r)))
                      | None \<Rightarrow> Inr (None, Some (Text msg_could_not)))))
      else if status_code response = 400 then Inr (None, Some (Text msg_bad_request))
      else if status_code response = 403 then Inr (None, Some (Text msg_moderation))
      else if status_code response = 500 then Inr (None, Some (Text msg_service_down))
      else Inr (None, Some (Text msg_could_not)))"

text \<open>The \<open>try\<close> block of \<open>imagine\<close>: the requests sent, and the value returned or the exception.\<close>

definition stability_imagine_try ::
  "stability_env \<Rightarrow> stability_engine \<Rightarrow> pystr option \<Rightarrow> pystr \<Rightarrow> pystr option \<Rightarrow> int \<Rightarrow> pystr \<Rightarrow> bool \<Rightarrow>
     stability_data list \<times> (py_error + image_result)" where
  "stability_imagine_try env eng prompt rt negative_prompt seed output_format revision =
     (case prompt of
        None \<Rightarrow> ([], Inr (None, Some (Text msg_no_prompt)))
      | Some p \<Rightarrow>
          if p = [] then ([], Inr (None, Some (Text msg_empty_prompt)))
          else
            (case stability_build (s_settings eng) p rt negative_prompt seed output_format of
               Inl e \<Rightarrow> ([], Inl e)
             | Inr (prompt1, data) \<Rightarrow>
                 (case s_post env data of
                    Inl e \<Rightarrow> ([data], Inl e)
                  | Inr response \<Rightarrow> ([data], stability_reply prompt1 revision response))))"

text \<open>\<open>imagine\<close>: the rate-limit check, then the \<open>try\<close> block and its handler.\<close>

definition stability_imagine ::
  "stability_env \<Rightarrow> stability_engine \<Rightarrow> pystr option \<Rightarrow> pyid \<Rightarrow> pystr \<Rightarrow> pystr option \<Rightarrow> int \<Rightarrow> pystr \<Rightarrow>
     bool \<Rightarrow> stability_engine \<times> stability_data list \<times> image_result" where
  "stability_imagine env eng prompt i rt negative_prompt seed output_format revision =
     (case stability_image_rate_limit_check eng i (s_time env) of
        (eng1, ok) \<Rightarrow>
          if ok = False
          then (eng1, [], (None, Some (Throttled (s_ImageRateLimitCount (s_settings eng))
                                                    (s_ImageRateLimitTime (s_settings eng)))))
          else
            (case stability_imagine_try env eng1 prompt rt negative_prompt seed output_format revision of
               (sent, Inr r) \<Rightarrow> (eng1, sent, r)
             | (sent, Inl e) \<Rightarrow> (eng1, sent, (None, None))))"

text \<open>
  \<open>generate_image\<close>: as for the other engine, the handler that returns the bare \<open>None\<close>
  is never entered. \<open>image_style\<close> is not used.
\<close>

definition stability_generate_image ::
  "stability_env \<Rightarrow> stability_engine \<Rightarrow> pystr option \<Rightarrow> pystr option \<Rightarrow> pystr option \<Rightarrow>
     stability_engine \<times> stability_data list \<times> image_result option" where
  "stability_generate_image env eng prompt image_orientation image_style =
     (case prompt of
        None \<Rightarrow> (eng, [], Some (None, None))
      | Some p \<Rightarrow>
          let ratio0 = lit ''1:1'';
              ratio1 = (if image_orientation = Some (lit ''landscape'') then lit ''16:9'' else ratio0);
              rt = (if image_orientation = Some (lit ''portrait'') then lit ''9:16'' else ratio1)
          in case stability_imagine env eng (Some p) (IdStr (lit ''function'')) rt None 0
                    (lit ''jpeg'') False of
               (eng1, sent, (b64_image, revised)) \<Rightarrow> (eng1, sent, Some (b64_image, revised)))"

subsection \<open>The two engines behind one interface\<close>

text \<open>
  The callers use either class through the same three methods. \<open>engine\<close> is the
  object that receives the call, the functions below dispatch on its class.
\<close>

datatype engine = Dalle dalle_engine | Stability stability_engine

fun rl_count :: "engine \<Rightarrow> int" where
  "rl_count (Dalle e) = d_ImageRateLimitCount (d_settings e)"
| "rl_count (Stability e) = s_ImageRateLimitCount (s_settings e)"

fun rl_window :: "engine \<Rightarrow> int" where
  "rl_window (Dalle e) = d_ImageRateLimitTime (d_settings e)"
| "rl_window (Stability e) = s_ImageRateLimitTime (s_settings e)"

fun rl_table :: "engine \<Rightarrow> rate_table option" where
  "rl_table (Dalle e) = d_image_rate_limit e"
| "rl_table (Stability e) = s_image_rate_limit e"

fun image_rate_limit_check :: "engine \<Rightarrow> pyid \<Rightarrow> real \<Rightarrow> engine \<times> bool" where
  "image_rate_limit_check (Dalle e) i current_time =
     (case dalle_image_rate_limit_check e i current_time of (e1, ok) \<Rightarrow> (Dalle e1, ok))"
| "image_rate_limit_check (Stability e) i current_time =
     (case stability_image_rate_limit_check e i current_time of (e1, ok) \<Rightarrow> (Stability e1, ok))"

text \<open>A sequence of checks for one identity at the given clock readings, results in order.\<close>

fun checks :: "engine \<Rightarrow> pyid \<Rightarrow> real list \<Rightarrow> engine \<times> bool list" where
  "checks e i [] = (e, [])"
| "checks e i (t # ts) =
     (case image_rate_limit_check e i t of
        (e1, ok) \<Rightarrow> (case checks e1 i ts of (e2, oks) \<Rightarrow> (e2, ok # oks)))"

text \<open>
  The history of an identity in a table (empty when the identity is not a key), and
  the list comprehension of the check: the entries \<open>t\<close> with \<open>current_time - t < W\<close>.
\<close>

definition hist :: "rate_table \<Rightarrow> pyid \<Rightarrow> real list" where
  "hist m i = (case m i of None \<Rightarrow> [] | Some h \<Rightarrow> h)"

definition history :: "engine \<Rightarrow> pyid \<Rightarrow> real list" where
  "history e i = (case rl_table e of None \<Rightarrow> [] | Some m \<Rightarrow> hist m i)"

definition prune :: "int \<Rightarrow> real \<Rightarrow> real list \<Rightarrow> real list" where
  "prune W current_time h = filter (\<lambda>t. current_time - t < real_of_int W) h"

text \<open>Engines for the examples: at most \<open>count\<close> images per \<open>window\<close> seconds.\<close>

definition example_dalle :: "int \<Rightarrow> int \<Rightarrow> engine" where
  "example_dalle count window =
     Dalle (dalle_init \<lparr> d_ImageGenModel = lit ''dall-e-3'', d_ImageGenerationSize = lit ''1024x1024'',
                        d_ImageGenerationStyle = lit ''vivid'', d_ImageGenerationQuality = lit ''standard'',
                        d_ImageRateLimitCount = count, d_ImageRateLimitTime = window \<rparr> False)"

definition example_stability :: "int \<Rightarrow> int \<Rightarrow> engine" where
  "example_stability count window =
     Stability (stability_init \<lparr> s_ImageGenURL = lit ''https://api.stability.ai/v2beta/stable-image/generate/core'',
                        s_ImageGenerationSize = lit ''1:1'',
                        s_ImageRateLimitCount = count, s_ImageRateLimitTime = window,
                        s_NegativePrompt = None, s_Seed = 0 \<rparr>)"

text \<open>
  Environments for the examples: the provider answers every request with \<open>reply\<close>,
  the clock reads 0. \<open>example_digest\<close> stands in for the SHA-1 hex digest in them.
\<close>

definition example_digest :: "pystr \<Rightarrow> pystr" where
  "example_digest s = lit ''sha1:'' @ s"

definition example_dalle_env :: "(py_error + dalle_image list) \<Rightarrow> dalle_env" where
  "example_dalle_env reply =
     \<lparr> d_sha1_hexdigest = example_digest, d_images_generate = (\<lambda>request. reply), d_time = 0 \<rparr>"

definition example_stability_env :: "(py_error + stability_response) \<Rightarrow> stability_env" where
  "example_stability_env reply = \<lparr> s_post = (\<lambda>data. reply), s_time = 0 \<rparr>"

definition example_image :: "py_error + dalle_image list" where
  "example_image =
     Inr [\<lparr> b64_json = Some (lit ''QUJD''), revised_prompt = Inr (Some (lit ''a cat, sitting'')) \<rparr>]"

definition example_json :: "py_error + stability_response" where
  "example_json =
     Inr \<lparr> status_code = 200,
           json = Inr \<lparr> j_image = Some (lit ''QUJD''), j_seed = Some (lit ''42''),
                        j_finish_reason = Some (lit ''SUCCESS'') \<rparr> \<rparr>"

definition example_status :: "int \<Rightarrow> py_error + stability_response" where
  "example_status code =
     Inr \<lparr> status_code = code,
           json = Inr \<lparr> j_image = None, j_seed = None, j_finish_reason = None \<rparr> \<rparr>"

text \<open>Engines without a rate limit: a DALL-E engine for a model, with or without the
  end-user flag, and a Stability engine with a configured negative prompt or none.\<close>

definition dalle_engine_of :: "pystr \<Rightarrow> bool \<Rightarrow> dalle_engine" where
  "dalle_engine_of model flag =
     dalle_init \<lparr> d_ImageGenModel = model, d_ImageGenerationSize = lit ''1024x1024'',
                  d_ImageGenerationStyle = lit ''vivid'', d_ImageGenerationQuality = lit ''standard'',
                  d_ImageRateLimitCount = 0, d_ImageRateLimitTime = 0 \<rparr> flag"

definition stability_engine_of :: "pystr option \<Rightarrow> stability_engine" where
  "stability_engine_of negative =
     stability_init \<lparr> s_ImageGenURL = lit ''https://api.stability.ai/v2beta/stable-image/generate/core'',
                      s_ImageGenerationSize = lit ''1:1'',
                      s_ImageRateLimitCount = 0, s_ImageRateLimitTime = 0,
                      s_NegativePrompt = negative, s_Seed = 0 \<rparr>"

section \<open>Properties\<close>

subsection \<open>The rate limiter\<close>

lemma rate_limit_check_disabled:
  "N \<le> 0 \<or> W \<le> 0 \<Longrightarrow> rate_limit_check N W tbl i now = (tbl, True)"
  by (simp add: rate_limit_check_def rate_limit_body_def)

lemma rate_limit_check_enabled:
  assumes "0 < N" "0 < W"
  shows "rate_limit_check N W (Some m) i now =
           (Some (m(i \<mapsto> prune W now (hist m i @ [now]))),
            \<not> N < int (length (prune W now (hist m i @ [now]))))"
  using assms
  by (auto simp: rate_limit_check_def rate_limit_body_def hist_def prune_def Let_def dom_def
           split: option.splits)

lemma image_rate_limit_check_core:
  "image_rate_limit_check e i now =
     (case rate_limit_check (rl_count e) (rl_window e) (rl_table e) i now of
        (tbl, ok) \<Rightarrow>
          ((case e of Dalle d \<Rightarrow> Dalle (d\<lparr>d_image_rate_limit := tbl\<rparr>)
                    | Stability d \<Rightarrow> Stability (d\<lparr>s_image_rate_limit := tbl\<rparr>)), ok))"
  by (cases e)
     (auto simp: dalle_image_rate_limit_check_def stability_image_rate_limit_check_def
           split: prod.splits)

lemma image_rate_limit_check_table:
  "rl_table (fst (image_rate_limit_check e i now)) =
     fst (rate_limit_check (rl_count e) (rl_window e) (rl_table e) i now)"
  by (cases e) (auto simp: image_rate_limit_check_core split: prod.splits)

lemma image_rate_limit_check_result:
  "snd (image_rate_limit_check e i now) =
     snd (rate_limit_check (rl_count e) (rl_window e) (rl_table e) i now)"
  by (cases e) (auto simp: image_rate_limit_check_core split: prod.splits)

lemma history_after_check:
  assumes "0 < rl_count e" "0 < rl_window e" "rl_table e = Some m"
  shows "history (fst (image_rate_limit_check e i now)) k =
           (if k = i then prune (rl_window e) now (hist m i @ [now]) else hist m k)"
  using rate_limit_check_enabled[OF assms(1,2), of m i now] assms(3)
  by (simp add: history_def image_rate_limit_check_table hist_def)

lemmas rl_eval = example_dalle_def example_stability_def dalle_init_def stability_init_def
  dalle_image_rate_limit_check_def stability_image_rate_limit_check_def
  rate_limit_check_def rate_limit_body_def Let_def dom_def hist_def history_def

lemma history_after_check_any:
  "history (fst (image_rate_limit_check e i now)) k =
     (if 0 < rl_count e \<and> 0 < rl_window e \<and> k = i \<and> rl_table e \<noteq> None
      then prune (rl_window e) now (history e i @ [now]) else history e k)"
proof (cases "0 < rl_count e \<and> 0 < rl_window e")
  case True
  show ?thesis
  proof (cases "rl_table e")
    case None
    then show ?thesis
      using True
      by (simp add: history_def image_rate_limit_check_table rate_limit_check_def rate_limit_body_def)
  next
    case (Some m)
    then show ?thesis
      using True history_after_check[of e m i now k] by (simp add: history_def)
  qed
next
  case False
  then have "rl_count e \<le> 0 \<or> rl_window e \<le> 0" by auto
  then show ?thesis
    using False
    by (auto simp: history_def image_rate_limit_check_table rate_limit_check_disabled)
qed

text \<open>
  C8, as stated, fails: a check prunes the list of the checked identity only. After
  identity 1 called at time 0, a check for identity 2 at time 1000 with a window of 10
  seconds leaves the entry 0 in the list of identity 1.
\<close>

theorem stale_entries_of_other_identities:
  "0 < rl_count (example_dalle 2 10) \<and> 0 < rl_window (example_dalle 2 10) \<and>
   history (fst (image_rate_limit_check
                   (fst (image_rate_limit_check (example_dalle 2 10) (IdInt 1) 0)) (IdInt 2) 1000))
           (IdInt 1) = [0] \<and>
   \<not> ((1000::real) - 0 < real_of_int (rl_window (example_dalle 2 10)))"
  by (simp add: rl_eval)

text \<open>
  C8, amended: after a check with the limiter enabled, the timestamp list of the
  checked identity holds only timestamps \<open>t\<close> with \<open>now - t < W\<close>; the lists of the
  other identities are as they were before the check.
\<close>

theorem checked_history_within_window:
  "0 < rl_count e \<and> 0 < rl_window e \<longrightarrow>
     (\<forall>t\<in>set (history (fst (image_rate_limit_check e i now)) i). now - t < real_of_int (rl_window e)) \<and>
     (\<forall>k. k \<noteq> i \<longrightarrow> history (fst (image_rate_limit_check e i now)) k = history e k)"
proof (intro impI conjI ballI allI)
  fix t
  assume "0 < rl_count e \<and> 0 < rl_window e"
    and "t \<in> set (history (fst (image_rate_limit_check e i now)) i)"
  then have en: "0 < rl_count e" "0 < rl_window e"
    and mem: "t \<in> set (if rl_table e \<noteq> None
                          then prune (rl_window e) now (history e i @ [now]) else history e i)"
    by (simp_all add: history_after_check_any)
  show "now - t < real_of_int (rl_window e)"
  proof (cases "rl_table e")
    case None
    then show ?thesis using mem by (simp add: history_def)
  next
    case (Some m)
    then show ?thesis using mem en by (auto simp: prune_def)
  qed
next
  fix k
  assume "k \<noteq> i"
  then show "history (fst (image_rate_limit_check e i now)) k = history e k"
    by (simp add: history_after_check_any)
qed

theorem checked_history_within_window_witness:
  "0 < rl_count (example_stability 2 10) \<and> 0 < rl_window (example_stability 2 10) \<and>
   history (fst (checks (example_stability 2 10) (IdInt 7) [0, 4])) (IdInt 7) = [0, 4] \<and>
   history (fst (image_rate_limit_check (fst (checks (example_stability 2 10) (IdInt 7) [0, 4]))
                   (IdInt 7) 12)) (IdInt 7) = [4, 12] \<and>
   (12::real) - 4 < real_of_int (rl_window (fst (checks (example_stability 2 10) (IdInt 7) [0, 4]))) \<and>
   (12::real) - 12 < real_of_int (rl_window (fst (checks (example_stability 2 10) (IdInt 7) [0, 4])))"
  using checked_history_within_window[of "fst (checks (example_stability 2 10) (IdInt 7) [0, 4])" "IdInt 7" 12]
  by (simp add: rl_eval)

text \<open>
  C10. With the limiter enabled, every check appends the clock reading to the history
  of the identity before it decides: the new history is the pruned old one followed by
  \<open>now\<close>, also when the check returns false. So a denied attempt counts in the later
  checks: with one image per 10 seconds, calls at 0, 5 and 12 are answered true,
  false, false, where calls at 0 and 12 alone are answered true, true.
\<close>

theorem denied_attempts_are_recorded:
  "(0 < rl_count e \<and> 0 < rl_window e \<and> rl_table e = Some m \<longrightarrow>
      history (fst (image_rate_limit_check e i now)) i =
        filter (\<lambda>t. now - t < real_of_int (rl_window e)) (history e i) @ [now] \<and>
      (snd (image_rate_limit_check e i now) = False \<longrightarrow>
         now \<in> set (history (fst (image_rate_limit_check e i now)) i))) \<and>
   snd (checks (example_dalle 1 10) (IdInt 7) [0, 5, 12]) = [True, False, False] \<and>
   snd (checks (example_dalle 1 10) (IdInt 7) [0, 12]) = [True, True] \<and>
   snd (checks (example_stability 1 10) (IdInt 7) [0, 5, 12]) = [True, False, False] \<and>
   snd (checks (example_stability 1 10) (IdInt 7) [0, 12]) = [True, True]"
proof -
  have "history (fst (image_rate_limit_check e i now)) i =
        filter (\<lambda>t. now - t < real_of_int (rl_window e)) (history e i) @ [now]"
    if "0 < rl_count e \<and> 0 < rl_window e \<and> rl_table e = Some m"
    using that by (simp add: history_after_check_any prune_def)
  then show ?thesis
    by (simp add: rl_eval)
qed

theorem denied_attempts_are_recorded_witness:
  "0 < rl_count (example_dalle 1 10) \<and> 0 < rl_window (example_dalle 1 10) \<and>
   snd (image_rate_limit_check (fst (checks (example_dalle 1 10) (IdInt 7) [0])) (IdInt 7) 5) = False \<and>
   history (fst (image_rate_limit_check (fst (checks (example_dalle 1 10) (IdInt 7) [0])) (IdInt 7) 5))
           (IdInt 7) = [0, 5]"
  using denied_attempts_are_recorded[of "fst (checks (example_dalle 1 10) (IdInt 7) [0])"
          "the (rl_table (fst (checks (example_dalle 1 10) (IdInt 7) [0])))" "IdInt 7" 5]
  by (simp add: rl_eval)

subsection \<open>Evaluation of the examples\<close>

lemmas str_eval = lit_def py_replace_def py_in_def sublist_code py_strip_def py_isspace_def em_dash_def
  py_index_def str_opt_def str_id_def str_int_def

lemmas example_eval = example_digest_def example_dalle_env_def example_stability_env_def
  example_image_def example_json_def example_status_def dalle_engine_of_def stability_engine_of_def
  dalle_init_def stability_init_def

lemmas dalle_eval = dalle_imagine_def dalle_imagine_try_def dalle_directives_def keyword_style_def
  keyword_quality_def keyword_size_def dalle_image_rate_limit_check_def rate_limit_check_def
  rate_limit_body_def dalle_generate_image_def

lemmas stability_eval = stability_imagine_def stability_imagine_try_def stability_build_def
  stability_seed_data_def stability_orientation_def stability_ratio_def stability_negative_def
  stability_seed_def directive_arg_def stability_reply_def stability_image_rate_limit_check_def
  rate_limit_check_def rate_limit_body_def stability_generate_image_def

subsection \<open>generate\_image\<close>



subsection \<open>The end-user identifier\<close>

text \<open>
  C9, as stated, fails: without the flag the field \<open>user\<close> is \<open>str(None)\<close>, the text
  \<open>None\<close>, and for the identity \<open>'None'\<close> that is the identity itself.
\<close>

theorem user_field_equals_identity:
  "map rq_user (fst (snd (dalle_imagine (example_dalle_env example_image)
       (dalle_engine_of (lit ''dall-e-3'') False) (Some (lit ''a cat'')) (IdStr (lit ''None''))
       (lit ''1024x1024'') (lit ''vivid'') 1 (lit ''standard'') False))) =
   [str_id (IdStr (lit ''None''))]"
  by (simp add: dalle_eval example_eval str_eval)

lemma dalle_imagine_try_sent:
  "rq \<in> set (fst (dalle_imagine_try env eng prompt i sz style n quality revision)) \<Longrightarrow>
     rq_user rq = (if d_end_user_id eng then d_sha1_hexdigest env (str_id i) else lit ''None'')"
  by (auto simp: dalle_imagine_try_def Let_def str_opt_def
           split: option.splits prod.splits if_splits sum.splits)

lemma dalle_check_keeps:
  "d_end_user_id (fst (dalle_image_rate_limit_check eng i t)) = d_end_user_id eng"
  "d_settings (fst (dalle_image_rate_limit_check eng i t)) = d_settings eng"
  by (simp_all add: dalle_image_rate_limit_check_def split: prod.splits)

lemma dalle_imagine_sent:
  "fst (snd (dalle_imagine env eng prompt i sz style n quality revision)) =
     (if snd (dalle_image_rate_limit_check eng i (d_time env))
      then fst (dalle_imagine_try env (fst (dalle_image_rate_limit_check eng i (d_time env)))
                  prompt i sz style n quality revision)
      else [])"
  by (auto simp: dalle_imagine_def split: prod.splits sum.splits py_error.splits)

text \<open>
  C9, amended: in every request that \<open>DalleEngine.imagine\<close> sends, the field \<open>user\<close> is
  the SHA-1 hex digest of \<open>str(id)\<close> when the end-user flag is configured, and the
  constant text \<open>None\<close>, whatever the identity, when it is not. (The digest is the one
  of \<open>hashlib\<close>, a parameter here.)
\<close>

theorem user_field_is_digest_or_constant:
  "\<forall>rq\<in>set (fst (snd (dalle_imagine env eng prompt i sz style n quality revision))).
     rq_user rq = (if d_end_user_id eng then d_sha1_hexdigest env (str_id i) else lit ''None'')"
  using dalle_imagine_try_sent[of _ env "fst (dalle_image_rate_limit_check eng i (d_time env))"]
  by (auto simp: dalle_imagine_sent dalle_check_keeps)

theorem user_field_is_digest_or_constant_witness:
  "map rq_user (fst (snd (dalle_imagine (example_dalle_env example_image)
       (dalle_engine_of (lit ''dall-e-3'') True) (Some (lit ''a cat'')) (IdInt 12345)
       (lit ''1024x1024'') (lit ''vivid'') 1 (lit ''standard'') False))) =
   [example_digest (lit ''12345'')] \<and>
   d_end_user_id (dalle_engine_of (lit ''dall-e-3'') True)"
  using user_field_is_digest_or_constant[of "example_dalle_env example_image"
       "dalle_engine_of (lit ''dall-e-3'') True" "Some (lit ''a cat'')" "IdInt 12345"
       "lit ''1024x1024''" "lit ''vivid''" 1 "lit ''standard''" False]
  by (simp add: dalle_eval example_eval str_eval)

subsection \<open>Replies of the provider\<close>

text \<open>
  C5, as stated, fails for \<open>DalleEngine\<close>: only \<open>BadRequestError\<close> and \<open>RateLimitError\<close> have
  handlers. The exceptions of the client for the status 403 and for the status 500 both
  end in the last handler, with the same result \<open>(None, None)\<close> and no message.
\<close>

theorem dalle_403_and_500_share_outcome:
  "snd (snd (dalle_imagine (example_dalle_env (Inl (PermissionDeniedError (lit ''Error code: 403''))))
       (dalle_engine_of (lit ''dall-e-3'') False) (Some (lit ''a cat'')) (IdInt 5)
       (lit ''1024x1024'') (lit ''vivid'') 1 (lit ''standard'') False)) = (None, None) \<and>
   snd (snd (dalle_imagine (example_dalle_env (Inl (InternalServerError (lit ''Error code: 500''))))
       (dalle_engine_of (lit ''dall-e-3'') False) (Some (lit ''a cat'')) (IdInt 5)
       (lit ''1024x1024'') (lit ''vivid'') 1 (lit ''standard'') False)) = (None, None)"
  by (simp add: dalle_eval example_eval str_eval)

lemma messages_distinct:
  "msg_bad_request \<noteq> msg_moderation" "msg_bad_request \<noteq> msg_service_down"
  "msg_bad_request \<noteq> msg_could_not" "msg_moderation \<noteq> msg_service_down"
  "msg_moderation \<noteq> msg_could_not" "msg_service_down \<noteq> msg_could_not"
  "msg_policy \<noteq> msg_rejected" "msg_policy \<noteq> msg_service_limited"
  "msg_rejected \<noteq> msg_service_limited"
  by (simp_all add: msg_bad_request_def msg_moderation_def msg_service_down_def msg_could_not_def
        msg_policy_def msg_rejected_def msg_service_limited_def lit_def)

lemma stability_check_keeps:
  "s_settings (fst (stability_image_rate_limit_check eng i t)) = s_settings eng"
  by (simp add: stability_image_rate_limit_check_def split: prod.splits)

lemma stability_imagine_result:
  "snd (snd (stability_imagine env eng prompt i rt neg seed fmt revision)) =
     (if snd (stability_image_rate_limit_check eng i (s_time env))
      then (case snd (stability_imagine_try env (fst (stability_image_rate_limit_check eng i (s_time env)))
                        prompt rt neg seed fmt revision) of
              Inl e \<Rightarrow> (None, None) | Inr r \<Rightarrow> r)
      else (None, Some (Throttled (s_ImageRateLimitCount (s_settings eng))
                                  (s_ImageRateLimitTime (s_settings eng)))))"
  by (auto simp: stability_imagine_def split: prod.splits sum.splits)

lemma dalle_imagine_result:
  "snd (snd (dalle_imagine env eng prompt i sz style n quality revision)) =
     (if snd (dalle_image_rate_limit_check eng i (d_time env))
      then (case snd (dalle_imagine_try env (fst (dalle_image_rate_limit_check eng i (d_time env)))
                        prompt i sz style n quality revision) of
              Inr r \<Rightarrow> r
            | Inl (BadRequestError t) \<Rightarrow>
                (None, Some (Text (if py_in (lit ''content_policy_violation'') t
                                   then msg_policy else msg_rejected)))
            | Inl (RateLimitError t) \<Rightarrow> (None, Some (Text msg_service_limited))
            | Inl _ \<Rightarrow> (None, None))
      else (None, Some (Throttled (d_ImageRateLimitCount (d_settings eng))
                                  (d_ImageRateLimitTime (d_settings eng)))))"
  by (auto simp: dalle_imagine_def split: prod.splits sum.splits py_error.splits)

lemma stability_try_reply:
  assumes "p \<noteq> []" "stability_build (s_settings eng) p rt neg seed fmt = Inr (p1, data)"
    "s_post env data = Inr r"
  shows "snd (stability_imagine_try env eng (Some p) rt neg seed fmt revision) =
           stability_reply p1 revision r"
  using assms by (simp add: stability_imagine_try_def)

lemma dalle_try_raise:
  assumes "fst (dalle_directives (d_settings eng) p sz style quality) \<noteq> []"
    "\<forall>rq. d_images_generate env rq = Inl err"
  shows "snd (dalle_imagine_try env eng (Some p) i sz style n quality revision) = Inl err"
  using assms by (auto simp: dalle_imagine_try_def Let_def split: prod.splits)

text \<open>
  C5, amended. \<open>StabilityEngine.imagine\<close> maps a reply with the status 400, 403, 500
  and with any other status but 200 (429 among them) to four messages that differ
  from each other. \<open>DalleEngine.imagine\<close> maps a \<open>BadRequestError\<close> whose text holds
  \<open>content_policy_violation\<close>, any other \<open>BadRequestError\<close>, and a \<open>RateLimitError\<close> to
  three messages that differ from each other; every other exception of the client
  gives \<open>(None, None)\<close>. In both cases the rate-limit check has passed and the prompt
  has led to a request.
\<close>

theorem provider_errors_spec:
  "(snd (stability_image_rate_limit_check seng i (s_time senv)) \<and> p \<noteq> [] \<and>
    stability_build (s_settings seng) p rt neg seed fmt = Inr (p1, data) \<and>
    s_post senv data = Inr r \<longrightarrow>
      snd (snd (stability_imagine senv seng (Some p) i rt neg seed fmt revision)) =
        (if status_code r = 200
         then (case stability_reply p1 revision r of Inl e \<Rightarrow> (None, None) | Inr res \<Rightarrow> res)
         else if status_code r = 400 then (None, Some (Text msg_bad_request))
         else if status_code r = 403 then (None, Some (Text msg_moderation))
         else if status_code r = 500 then (None, Some (Text msg_service_down))
         else (None, Some (Text msg_could_not)))) \<and>
   (snd (dalle_image_rate_limit_check eng i (d_time env)) \<and>
    fst (dalle_directives (d_settings eng) p sz style quality) \<noteq> [] \<and>
    (\<forall>rq. d_images_generate env rq = Inl err) \<longrightarrow>
      snd (snd (dalle_imagine env eng (Some p) i sz style n quality revision)) =
        (case err of
           BadRequestError t \<Rightarrow>
             (None, Some (Text (if py_in (lit ''content_policy_violation'') t
                                then msg_policy else msg_rejected)))
         | RateLimitError t \<Rightarrow> (None, Some (Text msg_service_limited))
         | _ \<Rightarrow> (None, None))) \<and>
   msg_bad_request \<noteq> msg_moderation \<and> msg_bad_request \<noteq> msg_service_down \<and>
   msg_bad_request \<noteq> msg_could_not \<and> msg_moderation \<noteq> msg_service_down \<and>
   msg_moderation \<noteq> msg_could_not \<and> msg_service_down \<noteq> msg_could_not \<and>
   msg_policy \<noteq> msg_rejected \<and> msg_policy \<noteq> msg_service_limited \<and>
   msg_rejected \<noteq> msg_service_limited"
proof (intro conjI impI)
  assume a: "snd (stability_image_rate_limit_check seng i (s_time senv)) \<and> p \<noteq> [] \<and>
    stability_build (s_settings seng) p rt neg seed fmt = Inr (p1, data) \<and>
    s_post senv data = Inr r"
  have b: "p \<noteq> []"
    "stability_build (s_settings (fst (stability_image_rate_limit_check seng i (s_time senv))))
       p rt neg seed fmt = Inr (p1, data)"
    "s_post senv data = Inr r"
    using a by (simp_all add: stability_check_keeps)
  have "snd (stability_imagine_try senv (fst (stability_image_rate_limit_check seng i (s_time senv)))
               (Some p) rt neg seed fmt revision) = stability_reply p1 revision r"
    by (rule stability_try_reply[OF b])
  then show "snd (snd (stability_imagine senv seng (Some p) i rt neg seed fmt revision)) =
        (if status_code r = 200
         then (case stability_reply p1 revision r of Inl e \<Rightarrow> (None, None) | Inr res \<Rightarrow> res)
         else if status_code r = 400 then (None, Some (Text msg_bad_request))
         else if status_code r = 403 then (None, Some (Text msg_moderation))
         else if status_code r = 500 then (None, Some (Text msg_service_down))
         else (None, Some (Text msg_could_not)))"
    using a by (simp add: stability_imagine_result) (simp add: stability_reply_def)
next
  assume a: "snd (dalle_image_rate_limit_check eng i (d_time env)) \<and>
    fst (dalle_directives (d_settings eng) p sz style quality) \<noteq> [] \<and>
    (\<forall>rq. d_images_generate env rq = Inl err)"
  have b: "fst (dalle_directives (d_settings (fst (dalle_image_rate_limit_check eng i (d_time env))))
                  p sz style quality) \<noteq> []"
    "\<forall>rq. d_images_generate env rq = Inl err"
    using a by (simp_all add: dalle_check_keeps)
  have "snd (dalle_imagine_try env (fst (dalle_image_rate_limit_check eng i (d_time env)))
               (Some p) i sz style n quality revision) = Inl err"
    by (rule dalle_try_raise[OF b])
  then show "snd (snd (dalle_imagine env eng (Some p) i sz style n quality revision)) =
        (case err of
           BadRequestError t \<Rightarrow>
             (None, Some (Text (if py_in (lit ''content_policy_violation'') t
                                then msg_policy else msg_rejected)))
         | RateLimitError t \<Rightarrow> (None, Some (Text msg_service_limited))
         | _ \<Rightarrow> (None, None))"
    using a by (simp add: dalle_imagine_result split: py_error.splits)
qed (rule messages_distinct)+

theorem provider_errors_spec_witness:
  "snd (snd (stability_imagine (example_stability_env (example_status 403)) (stability_engine_of None)
       (Some (lit ''a cat'')) (IdInt 5) (lit ''1:1'') None 0 (lit ''jpeg'') False)) =
     (None, Some (Text msg_moderation)) \<and>
   snd (snd (dalle_imagine
       (example_dalle_env (Inl (BadRequestError (lit ''Error code: 400 - content_policy_violation''))))
       (dalle_engine_of (lit ''dall-e-3'') False) (Some (lit ''a cat'')) (IdInt 5)
       (lit ''1024x1024'') (lit ''vivid'') 1 (lit ''standard'') False)) = (None, Some (Text msg_policy))"
  using provider_errors_spec[of "stability_engine_of None" "IdInt 5"
          "example_stability_env (example_status 403)" "lit ''a cat''" "lit ''1:1''" None 0 "lit ''jpeg''"
          "lit ''a cat''" _ _ False
          "dalle_engine_of (lit ''dall-e-3'') False"
          "example_dalle_env (Inl (BadRequestError (lit ''Error code: 400 - content_policy_violation'')))"
          "lit ''1024x1024''" "lit ''vivid''" "lit ''standard''"
          "BadRequestError (lit ''Error code: 400 - content_policy_violation'')" 1]
  by (simp add: dalle_eval stability_eval example_eval str_eval Let_def)

subsection \<open>The empty prompt\<close>

text \<open>
  C4 holds for \<open>DalleEngine\<close> and fails for \<open>StabilityEngine\<close>, which tests the prompt
  before it removes the keywords and never trims it: for the prompt \<open>--horizontal\<close>
  it sends a request with an empty prompt and returns the image of the provider. For
  \<open>--hd --vivid\<close> \<open>DalleEngine\<close> sends nothing and returns the message.
\<close>

theorem stability_sends_empty_prompt:
  "stability_imagine (example_stability_env example_json) (stability_engine_of None)
       (Some (lit ''--horizontal'')) (IdInt 5) (lit ''1:1'') None 0 (lit ''jpeg'') False =
     (stability_engine_of None,
      [\<lparr> sd_negative_prompt = None, sd_aspect_ratio = Some (lit ''1:1''), sd_seed = Some 0,
          sd_prompt = Some [], sd_output_format = Some (lit ''jpeg'') \<rparr>],
      (Some (lit ''QUJD''), None)) \<and>
   snd (dalle_imagine (example_dalle_env example_image) (dalle_engine_of (lit ''dall-e-3'') False)
       (Some (lit ''--hd --vivid'')) (IdInt 5) (lit ''1024x1024'') (lit ''natural'') 1
       (lit ''standard'') False) = ([], (None, Some (Text msg_no_prompt)))"
  by (simp add: stability_eval dalle_eval example_eval str_eval Let_def)

subsection \<open>Exceptions\<close>





subsection \<open>Keywords in the prompt\<close>














































end
